theory Spec2Isabelle
  imports Complex_Main "HOL-Library.Word"
begin

section \<open>Values of the JavaScript runtime\<close>

text \<open>
  A \<^verbatim>\<open>Buffer\<close> is a sequence of bytes. A JavaScript string is a sequence of UTF-16 code
  units and its \<^verbatim>\<open>.length\<close> counts code units, not bytes. Header names, header values,
  URLs and methods are kept as plain text.
\<close>

type_synonym byte = "8 word"
type_synonym buffer = "byte list"
type_synonym jsstring = "16 word list"
type_synonym headers = "(string \<times> string) list"

text \<open>The values \<^verbatim>\<open>JSON.parse\<close> returns. A raw request body kept "as string" is the
  JavaScript string value, \<open>JString\<close>.\<close>

datatype json =
    JNull
  | JBool bool
  | JNumber rat
  | JString jsstring
  | JArray "json list"
  | JObject "(jsstring \<times> json) list"

text \<open>
  The built-ins the proxy calls but does not define: \<^verbatim>\<open>JSON.parse\<close> (\<open>None\<close> when it
  throws), \<^verbatim>\<open>JSON.stringify\<close>, the UTF-8 decoding of \<^verbatim>\<open>Buffer.toString\<close>, and the three
  zlib decompressors (\<open>None\<close> when the stream emits \<^verbatim>\<open>error\<close>, in which case it never
  emits \<^verbatim>\<open>end\<close>). Every theorem below holds for all behaviours of these built-ins.
\<close>

record runtime =
  json_parse :: "jsstring \<Rightarrow> json option"
  json_stringify :: "json \<Rightarrow> jsstring"
  utf8 :: "buffer \<Rightarrow> jsstring"
  gunzip :: "buffer \<Rightarrow> buffer option"
  inflate :: "buffer \<Rightarrow> buffer option"
  brotliDecompress :: "buffer \<Rightarrow> buffer option"

section \<open>Capture records and the proxy object\<close>

record request_part =
  req_url :: string
  req_method :: string
  req_headers :: headers
  req_body :: json

record response_part =
  res_statusCode :: nat
  res_headers :: headers
  res_body :: json

record captured =
  request :: request_part
  response :: response_part
  timestamp :: string

record proxy_server =
  port :: nat
  insecure :: bool
  capturedResponses :: "captured list"
  maxCapturedResponses :: nat

text \<open>The constructor: an empty buffer with the limit 100.\<close>

definition new_ProxyServer :: "nat \<Rightarrow> bool \<Rightarrow> proxy_server" where
  "new_ProxyServer p i =
     \<lparr>port = p, insecure = i, capturedResponses = [], maxCapturedResponses = 100\<rparr>"

text \<open>What the proxy prints on the console, one constructor per message.\<close>

datatype log =
    RemovedOldest nat
  | CapturedJson string string nat nat nat
  | CapturedHttpsJson string string nat nat nat
  | ResponseTooLarge real string
  | ResponseInfo nat string bool
  | ParseFailed string string jsstring
  | DecompressionError
  | ProxyRequestError string
  | HttpsProxyError string string
  | NoResponsesYet
  | CapturedCount nat
  | ListEntry nat string string
  | ListStatus nat string
  | ListStatusSize nat nat
  | AnalyzeHint
  | ClearedAll

section \<open>The capture buffer\<close>

text \<open>
  Both handlers append with the same two statements: \<^verbatim>\<open>push\<close> the record, then, if the
  length exceeds \<^verbatim>\<open>maxCapturedResponses\<close>, \<^verbatim>\<open>shift\<close> the first element away and log it.
  The number printed as \<^verbatim>\<open>Response #n\<close>, the ordinal, is the length of the array after
  these statements.
\<close>

definition append_record :: "proxy_server \<Rightarrow> captured \<Rightarrow> proxy_server \<times> log list" where
  "append_record s r =
     (let pushed = capturedResponses s @ [r] in
      if length pushed > maxCapturedResponses s
      then (s\<lparr>capturedResponses := tl pushed\<rparr>, [RemovedOldest (maxCapturedResponses s)])
      else (s\<lparr>capturedResponses := pushed\<rparr>, []))"

definition ordinal_of :: "proxy_server \<Rightarrow> nat" where
  "ordinal_of s = length (capturedResponses s)"

text \<open>The ordinals reported by a run of appends, in order.\<close>

fun ordinals :: "proxy_server \<Rightarrow> captured list \<Rightarrow> nat list" where
  "ordinals s [] = []"
| "ordinals s (r # rs) =
     (let s' = fst (append_record s r) in ordinal_of s' # ordinals s' rs)"

text \<open>The \<^verbatim>\<open>clear\<close> command of the interactive mode.\<close>

definition clear :: "proxy_server \<Rightarrow> proxy_server \<times> log list" where
  "clear s = (s\<lparr>capturedResponses := []\<rparr>, [ClearedAll])"

text \<open>\<^verbatim>\<open>getResponse(index)\<close>: \<open>None\<close> is JavaScript's \<^verbatim>\<open>null\<close>. The proxy object is
  returned next to the result so that the effect on it can be stated.\<close>

definition getResponse :: "proxy_server \<Rightarrow> int \<Rightarrow> captured option \<times> proxy_server" where
  "getResponse s index =
     (if index < 1 \<or> index > int (length (capturedResponses s)) then (None, s)
      else (Some (capturedResponses s ! nat (index - 1)), s))"

text \<open>\<^verbatim>\<open>listResponses()\<close> as the class ends up with it (the second definition in the class
  body, which replaces the first).\<close>

definition listResponses :: "proxy_server \<Rightarrow> log list \<times> proxy_server" where
  "listResponses s =
     (if length (capturedResponses s) = 0 then ([NoResponsesYet], s)
      else (CapturedCount (length (capturedResponses s)) #
            concat (map (\<lambda>(idx, resp).
                      [ListEntry (idx + 1) (req_method (request resp)) (req_url (request resp)),
                       ListStatus (res_statusCode (response resp)) (timestamp resp)])
                    (enumerate 0 (capturedResponses s))) @ [AnalyzeHint], s))"

text \<open>The first \<^verbatim>\<open>listResponses()\<close> of the class body (the one written for the
  interactive mode), which prints the size of the serialised body.\<close>

definition listResponses_interactive ::
  "runtime \<Rightarrow> proxy_server \<Rightarrow> log list \<times> proxy_server" where
  "listResponses_interactive rt s =
     (if length (capturedResponses s) = 0 then ([NoResponsesYet], s)
      else (CapturedCount (length (capturedResponses s)) #
            concat (map (\<lambda>(idx, resp).
                      [ListEntry (idx + 1) (req_method (request resp)) (req_url (request resp)),
                       ListStatusSize (res_statusCode (response resp))
                         (length (json_stringify rt (res_body (response resp))))])
                    (enumerate 0 (capturedResponses s))), s))"

section \<open>The two request handlers\<close>

text \<open>\<^verbatim>\<open>String.prototype.includes\<close>: \<open>str_includes s t\<close> holds when \<open>t\<close> occurs in \<open>s\<close>.\<close>

fun str_includes :: "string \<Rightarrow> string \<Rightarrow> bool" where
  "str_includes [] t = (t = [])"
| "str_includes (c # s) t = (take (length t) (c # s) = t \<or> str_includes s t)"

text \<open>\<^verbatim>\<open>headers[name] || ''\<close> on the header object Node builds (names in lower case).\<close>

definition header_or_empty :: "headers \<Rightarrow> string \<Rightarrow> string" where
  "header_or_empty hs name = (case map_of hs name of None \<Rightarrow> [] | Some v \<Rightarrow> v)"

text \<open>
  The inputs of one exchange: the client's request with the chunks of its body, and what
  the upstream request led to. That is one of four courses of events:
  \<^item> \<open>UpstreamError\<close>: the request emits \<^verbatim>\<open>error\<close> and no response ever arrives (a failed
    connect, a connection lost before the response head);
  \<^item> \<open>UpstreamResponse\<close>: the response callback runs and the response emits
    \<^verbatim>\<open>end\<close> after the given chunks of its (still encoded) body;
  \<^item> \<open>UpstreamAborted\<close>: the response callback runs, the given chunks arrive, then the
    read fails: the request emits \<^verbatim>\<open>error\<close> and the response never emits \<^verbatim>\<open>end\<close>;
  \<^item> \<open>UpstreamStalled\<close>: the response callback runs, the given chunks arrive and
    nothing follows.

  What a handler does is an \<open>outcome\<close>: the response written to the client, the console
  messages, the proxy object afterwards, the arguments \<open>(record, ordinal)\<close> with which it
  reaches the \<^verbatim>\<open>onResponseCaptured\<close> notification, if it does, and the exception that
  leaves one of its listeners, if one does. \<^verbatim>\<open>writeHead\<close> throws
  \<^verbatim>\<open>ERR_HTTP_HEADERS_SENT\<close> on a response whose head has been written; the response
  callback writes the head at once, so the \<^verbatim>\<open>writeHead(502)\<close> of the error listener throws
  when it runs after the callback. No listener of the repository catches it.
\<close>

datatype error = TypeError | ERR_HTTP_HEADERS_SENT

record client_request =
  creq_url :: string
  creq_method :: string
  creq_headers :: headers
  creq_chunks :: "buffer list"

record upstream_response =
  up_statusCode :: nat
  up_headers :: headers
  up_chunks :: "buffer list"

datatype upstream =
    UpstreamError string
  | UpstreamResponse upstream_response
  | UpstreamAborted upstream_response string
  | UpstreamStalled upstream_response

datatype client_body = EndText string | Piped "buffer list"

record client_response =
  cres_status :: nat
  cres_headers :: headers
  cres_body :: client_body

record outcome =
  toClient :: client_response
  console :: "log list"
  proxy :: proxy_server
  notified :: "(captured \<times> nat) option"
  uncaught :: "error option"

text \<open>\<^verbatim>\<open>requestBody += chunk\<close>: every chunk is decoded on its own and appended.\<close>

definition accumulate :: "runtime \<Rightarrow> buffer list \<Rightarrow> jsstring" where
  "accumulate rt chunks = concat (map (utf8 rt) chunks)"

text \<open>\<^verbatim>\<open>delete options.headers['proxy-connection']\<close>; \<^verbatim>\<open>options.headers\<close> is the request's
  own header object, so the captured record sees the deletion too.\<close>

definition delete_proxy_connection :: "headers \<Rightarrow> headers" where
  "delete_proxy_connection hs = filter (\<lambda>(k, v). k \<noteq> ''proxy-connection'') hs"

text \<open>The request body as the record keeps it (the same statements in both handlers).\<close>

definition requestData :: "runtime \<Rightarrow> jsstring \<Rightarrow> json" where
  "requestData rt requestBody =
     (if requestBody \<noteq> []
      then (case json_parse rt requestBody of Some v \<Rightarrow> v | None \<Rightarrow> JString requestBody)
      else JNull)"

text \<open>What is forwarded to the client: status, headers and the body chunks piped so far
  (all of them when the response ends).\<close>

definition forwarded :: "upstream_response \<Rightarrow> client_response" where
  "forwarded proxyRes =
     \<lparr>cres_status = up_statusCode proxyRes, cres_headers = up_headers proxyRes,
      cres_body = Piped (up_chunks proxyRes)\<rparr>"

definition bad_gateway :: client_response where
  "bad_gateway =
     \<lparr>cres_status = 502, cres_headers = [(''Content-Type'', ''text/plain'')],
      cres_body = EndText ''Bad Gateway''\<rparr>"

text \<open>\<^verbatim>\<open>handleHttpRequest\<close>; \<open>now\<close> is the ISO timestamp read when the response ends. The
  listeners of the response run on \<^verbatim>\<open>end\<close> only, so a response that never ends is
  forwarded as far as it came and nothing is captured.\<close>

definition handleHttpRequest ::
  "runtime \<Rightarrow> string \<Rightarrow> proxy_server \<Rightarrow> client_request \<Rightarrow> upstream \<Rightarrow> outcome" where
  "handleHttpRequest rt now s clientReq up =
     (let requestBody = accumulate rt (creq_chunks clientReq);
          reqHeaders = delete_proxy_connection (creq_headers clientReq)
      in case up of
        UpstreamError msg \<Rightarrow>
          \<lparr>toClient = bad_gateway, console = [ProxyRequestError msg], proxy = s,
           notified = None, uncaught = None\<rparr>
      | UpstreamAborted proxyRes msg \<Rightarrow>
          \<lparr>toClient = forwarded proxyRes, console = [ProxyRequestError msg], proxy = s,
           notified = None, uncaught = Some ERR_HTTP_HEADERS_SENT\<rparr>
      | UpstreamStalled proxyRes \<Rightarrow>
          \<lparr>toClient = forwarded proxyRes, console = [], proxy = s,
           notified = None, uncaught = None\<rparr>
      | UpstreamResponse proxyRes \<Rightarrow>
          (let responseBody = accumulate rt (up_chunks proxyRes);
               contentType = header_or_empty (up_headers proxyRes) ''content-type''
           in if str_includes contentType ''application/json'' \<or> str_includes contentType ''text/json''
              then
                (let responseSizeMB = real (length responseBody) / (1024 * 1024) in
                 if responseSizeMB > 25
                 then \<lparr>toClient = forwarded proxyRes,
                       console = [ResponseTooLarge responseSizeMB (creq_url clientReq)],
                       proxy = s, notified = None, uncaught = None\<rparr>
                 else
                   (case json_parse rt responseBody of
                      None \<Rightarrow>
                        \<lparr>toClient = forwarded proxyRes, console = [], proxy = s,
                         notified = None, uncaught = None\<rparr>
                    | Some responseData \<Rightarrow>
                        (let capturedResponse =
                               \<lparr>request =
                                  \<lparr>req_url = creq_url clientReq,
                                   req_method = creq_method clientReq,
                                   req_headers = reqHeaders,
                                   req_body = requestData rt requestBody\<rparr>,
                                response =
                                  \<lparr>res_statusCode = up_statusCode proxyRes,
                                   res_headers = up_headers proxyRes,
                                   res_body = responseData\<rparr>,
                                timestamp = now\<rparr>;
                             appended = append_record s capturedResponse;
                             n = ordinal_of (fst appended)
                         in \<lparr>toClient = forwarded proxyRes,
                             console = snd appended @
                               [CapturedJson (creq_method clientReq) (creq_url clientReq)
                                  (up_statusCode proxyRes) (length responseBody) n],
                             proxy = fst appended,
                             notified = Some (capturedResponse, n), uncaught = None\<rparr>)))
              else \<lparr>toClient = forwarded proxyRes, console = [], proxy = s,
                    notified = None, uncaught = None\<rparr>))"

text \<open>The decompressor chosen from \<^verbatim>\<open>content-encoding\<close>; any other value, or none, leaves
  the stream as it is.\<close>

definition responseStream :: "runtime \<Rightarrow> string option \<Rightarrow> buffer \<Rightarrow> buffer option" where
  "responseStream rt encoding raw =
     (if encoding = Some ''gzip'' then gunzip rt raw
      else if encoding = Some ''deflate'' then inflate rt raw
      else if encoding = Some ''br'' then brotliDecompress rt raw
      else Some raw)"

text \<open>The line the MITM listener prints when the response callback runs.\<close>

definition response_info :: "upstream_response \<Rightarrow> log" where
  "response_info proxyRes =
     (let contentType = header_or_empty (up_headers proxyRes) ''content-type''
      in ResponseInfo (up_statusCode proxyRes) contentType
           (str_includes contentType ''application/json'' \<or>
            str_includes contentType ''text/json'' \<or>
            str_includes contentType ''json''))"

text \<open>The request listener that \<^verbatim>\<open>handleHttpsMITM\<close> installs on the decrypted connection,
  for the \<^verbatim>\<open>CONNECT\<close> target \<open>hostname\<close>.\<close>

definition handleHttpsMITM ::
  "runtime \<Rightarrow> string \<Rightarrow> proxy_server \<Rightarrow> string \<Rightarrow> client_request \<Rightarrow> upstream \<Rightarrow> outcome" where
  "handleHttpsMITM rt now s hostname clientReq up =
     (let requestBody = accumulate rt (creq_chunks clientReq);
          reqHeaders = delete_proxy_connection (creq_headers clientReq);
          fullUrl = ''https://'' @ hostname @ creq_url clientReq
      in case up of
        UpstreamError msg \<Rightarrow>
          \<lparr>toClient = bad_gateway, console = [HttpsProxyError hostname msg], proxy = s,
           notified = None, uncaught = None\<rparr>
      | UpstreamAborted proxyRes msg \<Rightarrow>
          \<lparr>toClient = forwarded proxyRes,
           console = [response_info proxyRes, HttpsProxyError hostname msg], proxy = s,
           notified = None, uncaught = Some ERR_HTTP_HEADERS_SENT\<rparr>
      | UpstreamStalled proxyRes \<Rightarrow>
          \<lparr>toClient = forwarded proxyRes, console = [response_info proxyRes], proxy = s,
           notified = None, uncaught = None\<rparr>
      | UpstreamResponse proxyRes \<Rightarrow>
          (let contentType = header_or_empty (up_headers proxyRes) ''content-type'';
               shouldCapture = (str_includes contentType ''application/json'' \<or>
                                str_includes contentType ''text/json'' \<or>
                                str_includes contentType ''json'');
               info = response_info proxyRes
           in if shouldCapture
              then
                (case responseStream rt (map_of (up_headers proxyRes) ''content-encoding'')
                        (concat (up_chunks proxyRes)) of
                   None \<Rightarrow>
                     \<lparr>toClient = forwarded proxyRes, console = [info, DecompressionError],
                      proxy = s, notified = None, uncaught = None\<rparr>
                 | Some decoded \<Rightarrow>
                     (let responseBody = utf8 rt decoded;
                          responseSizeMB = real (length responseBody) / (1024 * 1024)
                      in if responseSizeMB > 25
                         then \<lparr>toClient = forwarded proxyRes,
                               console = [info, ResponseTooLarge responseSizeMB fullUrl],
                               proxy = s, notified = None, uncaught = None\<rparr>
                         else
                           (case json_parse rt responseBody of
                              None \<Rightarrow>
                                \<lparr>toClient = forwarded proxyRes,
                                 console = [info, ParseFailed hostname contentType
                                                    (take 100 responseBody)],
                                 proxy = s, notified = None, uncaught = None\<rparr>
                            | Some responseData \<Rightarrow>
                                (let capturedResponse =
                                       \<lparr>request =
                                          \<lparr>req_url = fullUrl,
                                           req_method = creq_method clientReq,
                                           req_headers = reqHeaders,
                                           req_body = requestData rt requestBody\<rparr>,
                                        response =
                                          \<lparr>res_statusCode = up_statusCode proxyRes,
                                           res_headers = up_headers proxyRes,
                                           res_body = responseData\<rparr>,
                                        timestamp = now\<rparr>;
                                     appended = append_record s capturedResponse;
                                     n = ordinal_of (fst appended)
                                 in \<lparr>toClient = forwarded proxyRes,
                                     console = info # snd appended @
                                       [CapturedHttpsJson (creq_method clientReq) fullUrl
                                          (up_statusCode proxyRes) (length responseBody) n],
                                     proxy = fst appended,
                                     notified = Some (capturedResponse, n), uncaught = None\<rparr>))))
              else \<lparr>toClient = forwarded proxyRes, console = [info], proxy = s,
                    notified = None, uncaught = None\<rparr>))"

section \<open>The certificate manager\<close>

text \<open>
  Keys are opaque key material. A \<^verbatim>\<open>Date\<close> is held by its local calendar fields (month
  0 to 11, as \<^verbatim>\<open>getMonth\<close> counts). \<^verbatim>\<open>setFullYear\<close> replaces the year, moves 29 February
  of a year that has none to 1 March, and reads the resulting calendar fields as a local
  time. That last step depends on the time zone of the process: a time of day that the
  zone skips on that day (a daylight-saving gap) is moved. It is the parameter \<open>zone\<close>,
  the identity on every local time the zone has.
\<close>

type_synonym key = nat

record keypair =
  privateKey :: key
  publicKey :: key

record date =
  year :: int
  month :: nat
  day :: nat
  millisOfDay :: nat

definition leap_year :: "int \<Rightarrow> bool" where
  "leap_year y = (y mod 4 = 0 \<and> (y mod 100 \<noteq> 0 \<or> y mod 400 = 0))"

definition getFullYear :: "date \<Rightarrow> int" where
  "getFullYear d = year d"

definition setFullYear :: "(date \<Rightarrow> date) \<Rightarrow> date \<Rightarrow> int \<Rightarrow> date" where
  "setFullYear zone d y =
     zone (if month d = 1 \<and> day d = 29 \<and> \<not> leap_year y
           then d\<lparr>year := y, month := 2, day := 1\<rparr>
           else d\<lparr>year := y\<rparr>)"

text \<open>Certificate attributes \<^verbatim>\<open>{name, value}\<close> and \<^verbatim>\<open>{shortName, value}\<close>, and the four
  extensions the manager sets, each with its flags in the order of the source.\<close>

datatype attribute = Name string string | ShortName string string

datatype extension =
    BasicConstraints bool
  | KeyUsage bool bool bool bool bool
  | ExtKeyUsage bool bool bool bool bool
  | SubjectAltName "(nat \<times> string) list"

datatype signature = Sha256Signature key

record certificate =
  cert_publicKey :: key
  serialNumber :: string
  notBefore :: date
  notAfter :: date
  subject :: "attribute list"
  issuer :: "attribute list"
  extensions :: "extension list"
  signedBy :: signature

text \<open>
  PEM texts, kept as what a reader decodes from them. The text of a certificate does not
  hold everything the certificate object does: its validity times are written in whole
  seconds, and its serial number is written as the bytes of the hexadecimal digits, which
  read back as an even number of digits.
\<close>

datatype pem = PrivateKeyPem key | CertificatePem certificate

definition whole_seconds :: "date \<Rightarrow> date" where
  "whole_seconds d = d\<lparr>millisOfDay := (millisOfDay d div 1000) * 1000\<rparr>"

definition even_digits :: "string \<Rightarrow> string" where
  "even_digits s = (if odd (length s) then CHR ''0'' # s else s)"

definition privateKeyToPem :: "key \<Rightarrow> pem" where
  "privateKeyToPem k = PrivateKeyPem k"

definition certificateToPem :: "certificate \<Rightarrow> pem" where
  "certificateToPem c =
     CertificatePem
       (c\<lparr>serialNumber := even_digits (serialNumber c),
          notBefore := whole_seconds (notBefore c),
          notAfter := whole_seconds (notAfter c)\<rparr>)"

record leaf =
  leaf_key :: pem
  leaf_cert :: pem

record certificate_manager =
  caKey :: "key option"
  caCert :: "certificate option"
  cache :: "string \<rightharpoonup> leaf"

definition new_CertificateManager :: certificate_manager where
  "new_CertificateManager = \<lparr>caKey = None, caCert = None, cache = Map.empty\<rparr>"

text \<open>The branch of \<^verbatim>\<open>loadOrGenerateCA\<close> that generates the root certificate, from the
  generated key pair and the two clock readings.\<close>

definition ca_attrs :: "attribute list" where
  "ca_attrs =
     [Name ''commonName'' ''jojq Root CA'', Name ''countryName'' ''US'',
      ShortName ''ST'' ''Development'', Name ''localityName'' ''Local'',
      Name ''organizationName'' ''jojq Development'', ShortName ''OU'' ''jojq Proxy'']"

definition generateCA ::
  "certificate_manager \<Rightarrow> keypair \<Rightarrow> (date \<Rightarrow> date) \<Rightarrow> date \<Rightarrow> date \<Rightarrow> certificate_manager" where
  "generateCA m keys zone d1 d2 =
     m\<lparr>caKey := Some (privateKey keys),
       caCert := Some
         \<lparr>cert_publicKey = publicKey keys,
          serialNumber = ''01'',
          notBefore = d1,
          notAfter = setFullYear zone d2 (getFullYear d1 + 10),
          subject = ca_attrs,
          issuer = ca_attrs,
          extensions =
            [BasicConstraints True,
             KeyUsage True True True True True,
             ExtKeyUsage True True True True True],
          signedBy = Sha256Signature (privateKey keys)\<rparr>\<rparr>"

text \<open>
  What one minting reads from outside: the generated key pair, the text of
  \<^verbatim>\<open>Date.now()\<close>, the two \<^verbatim>\<open>new Date()\<close> readings, the first stored as \<^verbatim>\<open>notBefore\<close>, the
  second as \<^verbatim>\<open>notAfter\<close> before its year is set, and the time zone of the process.
\<close>

record mint_effects =
  generatedKeys :: keypair
  dateNowText :: string
  firstDate :: date
  secondDate :: date
  localZone :: "date \<Rightarrow> date"

text \<open>\<^verbatim>\<open>generateCertForHost\<close>. Reading \<^verbatim>\<open>this.caCert.subject\<close> or signing without a loaded CA
  throws.\<close>

definition generateCertForHost ::
  "certificate_manager \<Rightarrow> string \<Rightarrow> mint_effects \<Rightarrow> error + (leaf \<times> certificate_manager)" where
  "generateCertForHost m hostname fx =
     (case cache m hostname of
        Some cached \<Rightarrow> Inr (cached, m)
      | None \<Rightarrow>
          (case caCert m of
             None \<Rightarrow> Inl TypeError
           | Some ca \<Rightarrow>
               (case caKey m of
                  None \<Rightarrow> Inl TypeError
                | Some signer \<Rightarrow>
                    (let keys = generatedKeys fx;
                         cert =
                           \<lparr>cert_publicKey = publicKey keys,
                            serialNumber = dateNowText fx,
                            notBefore = firstDate fx,
                            notAfter = setFullYear (localZone fx) (secondDate fx)
                                         (getFullYear (firstDate fx) + 1),
                            subject = [Name ''commonName'' hostname],
                            issuer = subject ca,
                            extensions =
                              [BasicConstraints False,
                               KeyUsage False True False True True,
                               ExtKeyUsage True True False False False,
                               SubjectAltName [(2, hostname)]],
                            signedBy = Sha256Signature signer\<rparr>;
                         result = \<lparr>leaf_key = privateKeyToPem (privateKey keys),
                                   leaf_cert = certificateToPem cert\<rparr>
                     in Inr (result, m\<lparr>cache := (cache m)(hostname \<mapsto> result)\<rparr>)))))"

text \<open>Reading a returned leaf: its certificate, and the DNS names of its
  \<^verbatim>\<open>subjectAltName\<close>.\<close>

fun cert_of :: "pem \<Rightarrow> certificate option" where
  "cert_of (CertificatePem c) = Some c"
| "cert_of (PrivateKeyPem k) = None"

fun dns_names :: "extension list \<Rightarrow> string list" where
  "dns_names [] = []"
| "dns_names (SubjectAltName alts # es) = map snd (filter (\<lambda>(ty, v). ty = 2) alts) @ dns_names es"
| "dns_names (e # es) = dns_names es"

definition leaf_dns_names :: "leaf \<Rightarrow> string list" where
  "leaf_dns_names l = (case cert_of (leaf_cert l) of None \<Rightarrow> [] | Some c \<Rightarrow> dns_names (extensions c))"

definition leaf_public_key :: "leaf \<Rightarrow> key option" where
  "leaf_public_key l = map_option cert_publicKey (cert_of (leaf_cert l))"

text \<open>Every cached leaf was minted for the host name it is stored under.\<close>

definition cache_minted :: "certificate_manager \<Rightarrow> bool" where
  "cache_minted m = (\<forall>h l. cache m h = Some l \<longrightarrow> leaf_dns_names l = [h])"

section \<open>Notions used in the statements\<close>

text \<open>The record literal both handlers build, with the URL each of them stores.\<close>

definition exchange_record ::
  "runtime \<Rightarrow> string \<Rightarrow> string \<Rightarrow> client_request \<Rightarrow> upstream_response \<Rightarrow> json \<Rightarrow> captured" where
  "exchange_record rt now u clientReq proxyRes responseData =
     \<lparr>request =
        \<lparr>req_url = u, req_method = creq_method clientReq,
         req_headers = delete_proxy_connection (creq_headers clientReq),
         req_body = requestData rt (accumulate rt (creq_chunks clientReq))\<rparr>,
      response =
        \<lparr>res_statusCode = up_statusCode proxyRes, res_headers = up_headers proxyRes,
         res_body = responseData\<rparr>,
      timestamp = now\<rparr>"

text \<open>A run of further \<^verbatim>\<open>generateCertForHost\<close> calls; a call that throws leaves the manager
  as it was.\<close>

fun mint_run :: "certificate_manager \<Rightarrow> (string \<times> mint_effects) list \<Rightarrow> certificate_manager" where
  "mint_run m [] = m"
| "mint_run m ((h, fx) # calls) =
     (case generateCertForHost m h fx of
        Inl e \<Rightarrow> mint_run m calls
      | Inr (l, m') \<Rightarrow> mint_run m' calls)"

text \<open>The leaf a call returns, and the certificate in it.\<close>

definition minted_leaf :: "certificate_manager \<Rightarrow> string \<Rightarrow> mint_effects \<Rightarrow> leaf option" where
  "minted_leaf m hostname fx =
     (case generateCertForHost m hostname fx of
        Inl e \<Rightarrow> None
      | Inr (l, m') \<Rightarrow> Some l)"

definition minted_cert :: "certificate_manager \<Rightarrow> string \<Rightarrow> mint_effects \<Rightarrow> certificate option" where
  "minted_cert m hostname fx =
     (case generateCertForHost m hostname fx of
        Inl e \<Rightarrow> None
      | Inr (l, m') \<Rightarrow> cert_of (leaf_cert l))"

section \<open>A sample runtime\<close>

text \<open>
  Concrete built-ins for instances; the three decompressors of the sample runtime reject
  every input, as the real ones reject input that is not compressed. \<open>utf8_decode\<close> decodes well-formed UTF-8 as
  \<^verbatim>\<open>Buffer.toString('utf8')\<close> does: one code unit for a sequence of one to three bytes, a
  surrogate pair for four. A byte that starts no well-formed sequence becomes U+FFFD:
  so does a lead byte that the input ends after, and so does a continuation byte with no
  lead byte before it, as in Node. (Where a three- or four-byte sequence breaks off after
  its second byte Node writes one U+FFFD for the bytes so far and this function one for
  each; no instance below has such input.)
\<close>

definition continuation :: "byte \<Rightarrow> bool" where
  "continuation b = (0x80 \<le> b \<and> b \<le> 0xBF)"

definition two_bytes :: "byte \<Rightarrow> byte \<Rightarrow> nat" where
  "two_bytes b c = (unat b - 0xC0) * 64 + (unat c - 0x80)"

definition three_bytes :: "byte \<Rightarrow> byte \<Rightarrow> byte \<Rightarrow> nat" where
  "three_bytes b c d = (unat b - 0xE0) * 4096 + (unat c - 0x80) * 64 + (unat d - 0x80)"

definition four_bytes :: "byte \<Rightarrow> byte \<Rightarrow> byte \<Rightarrow> byte \<Rightarrow> nat" where
  "four_bytes b c d e =
     (unat b - 0xF0) * 262144 + (unat c - 0x80) * 4096 + (unat d - 0x80) * 64 + (unat e - 0x80)"

fun utf8_decode :: "buffer \<Rightarrow> jsstring" where
  "utf8_decode [] = []"
| "utf8_decode (b # bs) =
     (if b < 0x80 then ucast b # utf8_decode bs
      else if 0xC2 \<le> b \<and> b \<le> 0xDF then
        (case bs of
           c # cs \<Rightarrow>
             if continuation c then of_nat (two_bytes b c) # utf8_decode cs
             else 0xFFFD # utf8_decode bs
         | [] \<Rightarrow> [0xFFFD])
      else if 0xE0 \<le> b \<and> b \<le> 0xEF then
        (case bs of
           c # d # ds \<Rightarrow>
             if continuation c \<and> continuation d \<and> 0x800 \<le> three_bytes b c d
                \<and> \<not> (0xD800 \<le> three_bytes b c d \<and> three_bytes b c d \<le> 0xDFFF)
             then of_nat (three_bytes b c d) # utf8_decode ds
             else 0xFFFD # utf8_decode bs
         | _ \<Rightarrow> 0xFFFD # utf8_decode bs)
      else if 0xF0 \<le> b \<and> b \<le> 0xF4 then
        (case bs of
           c # d # e # es \<Rightarrow>
             if continuation c \<and> continuation d \<and> continuation e
                \<and> 0x10000 \<le> four_bytes b c d e \<and> four_bytes b c d e \<le> 0x10FFFF
             then of_nat (0xD800 + (four_bytes b c d e - 0x10000) div 1024)
                  # of_nat (0xDC00 + (four_bytes b c d e - 0x10000) mod 1024)
                  # utf8_decode es
             else 0xFFFD # utf8_decode bs
         | _ \<Rightarrow> 0xFFFD # utf8_decode bs)
      else 0xFFFD # utf8_decode bs)"

text \<open>
  \<open>json_parse_fragment\<close> agrees with \<^verbatim>\<open>JSON.parse\<close> on the three literal names and on
  string literals without escapes; it rejects every other text, so it stands for
  \<^verbatim>\<open>JSON.parse\<close> on those texts only. \<open>stringify_fragment\<close> serialises the same values.
\<close>

definition plain_char :: "16 word \<Rightarrow> bool" where
  "plain_char c = (0x20 \<le> c \<and> c \<noteq> 0x22 \<and> c \<noteq> 0x5C)"

definition json_parse_fragment :: "jsstring \<Rightarrow> json option" where
  "json_parse_fragment s =
     (if s = [0x6E, 0x75, 0x6C, 0x6C] then Some JNull
      else if s = [0x74, 0x72, 0x75, 0x65] then Some (JBool True)
      else if s = [0x66, 0x61, 0x6C, 0x73, 0x65] then Some (JBool False)
      else if 2 \<le> length s \<and> hd s = 0x22 \<and> last s = 0x22 \<and> list_all plain_char (butlast (tl s))
      then Some (JString (butlast (tl s)))
      else None)"

fun stringify_fragment :: "json \<Rightarrow> jsstring" where
  "stringify_fragment JNull = [0x6E, 0x75, 0x6C, 0x6C]"
| "stringify_fragment (JBool True) = [0x74, 0x72, 0x75, 0x65]"
| "stringify_fragment (JBool False) = [0x66, 0x61, 0x6C, 0x73, 0x65]"
| "stringify_fragment (JString s) = 0x22 # s @ [0x22]"
| "stringify_fragment v = []"

definition sample_runtime :: runtime where
  "sample_runtime =
     \<lparr>json_parse = json_parse_fragment, json_stringify = stringify_fragment,
      utf8 = utf8_decode, gunzip = (\<lambda>raw. None), inflate = (\<lambda>raw. None),
      brotliDecompress = (\<lambda>raw. None)\<rparr>"

section \<open>Sample inputs\<close>

text \<open>Concrete values on which the theorems below are instantiated.\<close>

definition sample_record :: captured where
  "sample_record =
     \<lparr>request = \<lparr>req_url = ''http://upstream.test/data'', req_method = ''GET'',
                 req_headers = [], req_body = JNull\<rparr>,
      response = \<lparr>res_statusCode = 200,
                  res_headers = [(''content-type'', ''application/json'')],
                  res_body = JObject [([0x78], JNumber 1)]\<rparr>,
      timestamp = ''2025-01-01T00:00:00.000Z''\<rparr>"

definition other_record :: captured where
  "other_record = sample_record\<lparr>timestamp := ''2025-01-01T00:00:01.000Z''\<rparr>"

definition full_proxy :: proxy_server where
  "full_proxy = (new_ProxyServer 8888 False)\<lparr>capturedResponses := replicate 100 sample_record\<rparr>"

text \<open>Requests without a body, with the JSON body \<^verbatim>\<open>true\<close> sent in two chunks, and with
  the body \<^verbatim>\<open>hi\<close>, which is not JSON.\<close>

definition get_request :: client_request where
  "get_request =
     \<lparr>creq_url = ''http://upstream.test/data'', creq_method = ''GET'',
      creq_headers = [(''host'', ''upstream.test''), (''proxy-connection'', ''keep-alive'')],
      creq_chunks = []\<rparr>"

definition post_json_request :: client_request where
  "post_json_request =
     \<lparr>creq_url = ''http://upstream.test/data'', creq_method = ''POST'',
      creq_headers = [(''host'', ''upstream.test'')],
      creq_chunks = [[0x74, 0x72], [0x75, 0x65]]\<rparr>"

definition post_text_request :: client_request where
  "post_text_request =
     \<lparr>creq_url = ''http://upstream.test/data'', creq_method = ''POST'',
      creq_headers = [(''host'', ''upstream.test'')],
      creq_chunks = [[0x68, 0x69]]\<rparr>"

text \<open>A request whose body is the JSON string literal of one \<^verbatim>\<open>U+00E9\<close> (bytes
  \<^verbatim>\<open>22 C3 A9 22\<close>), cut into two chunks between the two bytes of the character.\<close>

definition split_post_request :: client_request where
  "split_post_request =
     \<lparr>creq_url = ''http://upstream.test/data'', creq_method = ''POST'',
      creq_headers = [(''host'', ''upstream.test'')],
      creq_chunks = [[0x22, 0xC3], [0xA9, 0x22]]\<rparr>"

text \<open>Responses with the body \<^verbatim>\<open>"ok"\<close> (quotes included), under two content types.\<close>

definition json_response :: upstream_response where
  "json_response =
     \<lparr>up_statusCode = 200, up_headers = [(''content-type'', ''application/json'')],
      up_chunks = [[0x22, 0x6F, 0x6B, 0x22]]\<rparr>"

definition vendor_json_response :: upstream_response where
  "vendor_json_response =
     \<lparr>up_statusCode = 200, up_headers = [(''content-type'', ''application/vnd.api+json'')],
      up_chunks = [[0x22, 0x6F, 0x6B, 0x22]]\<rparr>"

text \<open>A response of which the head and the first two bytes of the body arrived.\<close>

definition partial_response :: upstream_response where
  "partial_response =
     \<lparr>up_statusCode = 200, up_headers = [(''content-type'', ''application/json'')],
      up_chunks = [[0x22, 0x6F]]\<rparr>"

definition sample_now :: string where
  "sample_now = ''2025-01-01T00:00:00.000Z''"

text \<open>
  Two large JSON string literals in UTF-8. The first is a quote, one \<^verbatim>\<open>U+00E9\<close> (bytes
  \<^verbatim>\<open>C3 A9\<close>), 26214397 letters \<^verbatim>\<open>a\<close> and a quote: 25 MB and one byte, arriving in 400
  chunks of 64 KB and a last chunk of one byte. The second is a quote, 13631488 times
  \<^verbatim>\<open>U+00E9\<close> and a quote, in two chunks: 26 MB and two bytes.
\<close>

definition big_response_25MB_plus_1 :: upstream_response where
  "big_response_25MB_plus_1 =
     \<lparr>up_statusCode = 200, up_headers = [(''content-type'', ''application/json'')],
      up_chunks = ([0x22, 0xC3, 0xA9] @ replicate 65533 0x61)
                  # replicate 399 (replicate 65536 0x61) @ [[0x22]]\<rparr>"

definition big_response_26MB :: upstream_response where
  "big_response_26MB =
     \<lparr>up_statusCode = 200, up_headers = [(''content-type'', ''application/json'')],
      up_chunks = [0x22 # concat (replicate 13631488 [0xC3, 0xA9]), [0x22]]\<rparr>"

text \<open>A manager with a generated CA and an empty cache, and the outside readings of two
  mintings in a time zone without transitions: one whose two clock readings are the same
  instant, one whose readings are the last millisecond of 2026 and the first of 2027.\<close>

definition sample_manager :: certificate_manager where
  "sample_manager =
     generateCA new_CertificateManager \<lparr>privateKey = 11, publicKey = 12\<rparr> (\<lambda>d. d)
       \<lparr>year = 2025, month = 0, day = 1, millisOfDay = 0\<rparr>
       \<lparr>year = 2025, month = 0, day = 1, millisOfDay = 0\<rparr>"

definition same_instant_effects :: mint_effects where
  "same_instant_effects =
     \<lparr>generatedKeys = \<lparr>privateKey = 21, publicKey = 22\<rparr>, dateNowText = ''1781524800000'',
      firstDate = \<lparr>year = 2026, month = 5, day = 15, millisOfDay = 43200000\<rparr>,
      secondDate = \<lparr>year = 2026, month = 5, day = 15, millisOfDay = 43200000\<rparr>,
      localZone = (\<lambda>d. d)\<rparr>"

definition year_end_effects :: mint_effects where
  "year_end_effects =
     \<lparr>generatedKeys = \<lparr>privateKey = 31, publicKey = 32\<rparr>, dateNowText = ''1798761599999'',
      firstDate = \<lparr>year = 2026, month = 11, day = 31, millisOfDay = 86399999\<rparr>,
      secondDate = \<lparr>year = 2027, month = 0, day = 1, millisOfDay = 0\<rparr>,
      localZone = (\<lambda>d. d)\<rparr>"

section \<open>Properties of the capture buffer\<close>

lemma append_record_captured:
  "capturedResponses (fst (append_record s r)) =
     (if length (capturedResponses s) < maxCapturedResponses s
      then capturedResponses s @ [r]
      else tl (capturedResponses s @ [r]))"
  by (simp add: append_record_def Let_def)

lemma append_record_max:
  "maxCapturedResponses (fst (append_record s r)) = maxCapturedResponses s"
  by (simp add: append_record_def Let_def)

lemma append_record_length:
  "length (capturedResponses s) \<le> maxCapturedResponses s \<Longrightarrow>
   ordinal_of (fst (append_record s r)) =
     min (length (capturedResponses s) + 1) (maxCapturedResponses s)"
  by (auto simp: append_record_captured ordinal_of_def)

lemma new_ProxyServer_bounded:
  "length (capturedResponses (new_ProxyServer p i)) \<le> maxCapturedResponses (new_ProxyServer p i)"
  by (simp add: new_ProxyServer_def)

lemma append_record_bounded:
  "length (capturedResponses s) \<le> maxCapturedResponses s \<Longrightarrow>
   length (capturedResponses (fst (append_record s r))) \<le> maxCapturedResponses (fst (append_record s r))"
  by (auto simp: append_record_captured append_record_max)

text \<open>The bound holds on every proxy object reached from the constructor by appends.\<close>

lemma appends_from_constructor_bounded:
  "length (capturedResponses (foldl (\<lambda>s r. fst (append_record s r)) (new_ProxyServer p i) rs))
     \<le> 100"
proof -
  have "length (capturedResponses (foldl (\<lambda>s r. fst (append_record s r)) s rs)) \<le> 100"
    if "length (capturedResponses s) \<le> 100" and "maxCapturedResponses s = 100" for s
    using that
  proof (induction rs arbitrary: s)
    case Nil
    then show ?case by simp
  next
    case (Cons r rs)
    have "length (capturedResponses (fst (append_record s r))) \<le> 100"
      using append_record_bounded [of s r] Cons.prems by (simp add: append_record_max)
    moreover have "maxCapturedResponses (fst (append_record s r)) = 100"
      using Cons.prems by (simp add: append_record_max)
    ultimately show ?case using Cons.IH by simp
  qed
  then show ?thesis by (simp add: new_ProxyServer_def)
qed

text \<open>
  C2. Take a proxy object whose buffer is within its maximum, the maximum being at least
  one (the constructor sets 100). After an append the buffer is again within the maximum,
  which is unchanged. If the push made the length exceed the maximum, the new buffer is
  the old one without its first element, followed by the appended record; otherwise it is
  the old one followed by the appended record. In both cases the appended record is the
  last element and the surviving records keep their order.
\<close>

theorem append_keeps_bound_drops_head:
  assumes "length (capturedResponses s) \<le> maxCapturedResponses s"
      and "0 < maxCapturedResponses s"
  shows "length (capturedResponses (fst (append_record s r))) \<le> maxCapturedResponses (fst (append_record s r))
       \<and> maxCapturedResponses (fst (append_record s r)) = maxCapturedResponses s
       \<and> capturedResponses (fst (append_record s r)) =
           (if length (capturedResponses s) + 1 > maxCapturedResponses s
            then tl (capturedResponses s) @ [r]
            else capturedResponses s @ [r])
       \<and> last (capturedResponses (fst (append_record s r))) = r"
proof -
  have "capturedResponses s \<noteq> []" if "\<not> length (capturedResponses s) < maxCapturedResponses s"
    using that assms(2) by auto
  then show ?thesis
    using assms by (auto simp: append_record_captured append_record_max)
qed

theorem append_keeps_bound_drops_head_witness:
  "capturedResponses (fst (append_record (new_ProxyServer 8888 False) sample_record))
     = [sample_record]
   \<and> capturedResponses (fst (append_record full_proxy other_record))
     = replicate 99 sample_record @ [other_record]"
proof -
  have "capturedResponses (fst (append_record (new_ProxyServer 8888 False) sample_record))
          = [sample_record]"
    using append_keeps_bound_drops_head [of "new_ProxyServer 8888 False" sample_record]
    by (simp add: new_ProxyServer_def)
  moreover have "tl (replicate 100 sample_record) = replicate 99 sample_record"
    by simp
  then have "capturedResponses (fst (append_record full_proxy other_record))
          = replicate 99 sample_record @ [other_record]"
    using append_keeps_bound_drops_head [of full_proxy other_record]
    by (simp add: full_proxy_def new_ProxyServer_def)
  ultimately show ?thesis by simp
qed

section \<open>Ordinals\<close>

lemma ordinals_length: "length (ordinals s rs) = length rs"
  by (induction rs arbitrary: s) (simp_all add: Let_def)

lemma ordinals_nth:
  "length (capturedResponses s) \<le> maxCapturedResponses s \<Longrightarrow> i < length rs \<Longrightarrow>
   ordinals s rs ! i = min (length (capturedResponses s) + i + 1) (maxCapturedResponses s)"
proof (induction rs arbitrary: s i)
  case Nil
  then show ?case by simp
next
  case (Cons r rs)
  let ?s' = "fst (append_record s r)"
  have len: "ordinal_of ?s' = min (length (capturedResponses s) + 1) (maxCapturedResponses s)"
    using Cons.prems(1) by (rule append_record_length)
  show ?case
  proof (cases i)
    case 0
    then show ?thesis using len by (simp add: Let_def)
  next
    case (Suc j)
    have bounded: "length (capturedResponses ?s') \<le> maxCapturedResponses ?s'"
      using Cons.prems(1) by (rule append_record_bounded)
    have "j < length rs" using Cons.prems(2) Suc by simp
    from Cons.IH [OF bounded this]
    have "ordinals ?s' rs ! j =
            min (length (capturedResponses ?s') + j + 1) (maxCapturedResponses s)"
      by (simp add: append_record_max)
    then show ?thesis
      using Suc len by (simp add: Let_def ordinal_of_def min_def)
  qed
qed

text \<open>
  C5, as the code has it. The ordinal reported for an append is the buffer length after
  it. Over a run of appends on a buffer within its maximum, the ordinals never decrease:
  the \<open>i\<close>-th append (counting from 0) reports the smaller of the old length plus \<open>i + 1\<close>
  and the maximum, so the ordinals grow by one per append until the buffer is full and
  equal the maximum from then on.
\<close>

theorem ordinals_weakly_increasing:
  assumes "length (capturedResponses s) \<le> maxCapturedResponses s"
  shows "sorted (ordinals s rs) \<and>
         (\<forall>i < length rs. ordinals s rs ! i =
             min (length (capturedResponses s) + i + 1) (maxCapturedResponses s))"
proof -
  have nth: "\<forall>i < length rs. ordinals s rs ! i =
             min (length (capturedResponses s) + i + 1) (maxCapturedResponses s)"
    using assms by (simp add: ordinals_nth)
  have "sorted (ordinals s rs)"
    unfolding sorted_iff_nth_mono using nth by (simp add: ordinals_length min_def)
  with nth show ?thesis by simp
qed

theorem ordinals_weakly_increasing_witness:
  "sorted (ordinals (new_ProxyServer 8888 False) [sample_record, sample_record])
   \<and> ordinals (new_ProxyServer 8888 False) [sample_record, sample_record] ! 0 = 1
   \<and> ordinals (new_ProxyServer 8888 False) [sample_record, sample_record] ! 1 = 2"
  using ordinals_weakly_increasing [of "new_ProxyServer 8888 False" "[sample_record, sample_record]"]
  by (simp add: new_ProxyServer_def)

text \<open>The \<^verbatim>\<open>clear\<close> command starts the numbering again.\<close>

lemma ordinal_after_clear:
  "0 < maxCapturedResponses s \<Longrightarrow> ordinal_of (fst (append_record (fst (clear s)) r)) = 1"
  by (simp add: clear_def append_record_def ordinal_of_def Let_def)

text \<open>
  C5 as stated fails: of 101 appends to a freshly constructed proxy, the 100th and the
  101st both report ordinal 100.
\<close>

theorem ordinals_not_strictly_increasing:
  "\<not> sorted_wrt (<) (ordinals (new_ProxyServer 8888 False) (replicate 101 sample_record))"
proof
  let ?os = "ordinals (new_ProxyServer 8888 False) (replicate 101 sample_record)"
  assume "sorted_wrt (<) ?os"
  moreover have "length ?os = 101" by (simp add: ordinals_length)
  ultimately have "?os ! 99 < ?os ! 100"
    by (simp add: sorted_wrt_iff_nth_less)
  moreover have "?os ! 99 = 100" "?os ! 100 = 100"
    by (simp_all add: ordinals_nth new_ProxyServer_def)
  ultimately show False by simp
qed

section \<open>What the handlers capture\<close>

lemma str_includes_iff: "str_includes s t \<longleftrightarrow> (\<exists>a b. s = a @ t @ b)"
proof (induction s)
  case Nil
  then show ?case by auto
next
  case (Cons c s)
  show ?case
  proof
    assume "str_includes (c # s) t"
    then consider "take (length t) (c # s) = t" | "str_includes s t" by auto
    then show "\<exists>a b. c # s = a @ t @ b"
    proof cases
      case 1
      then have "c # s = [] @ t @ drop (length t) (c # s)"
        by (metis append_Nil append_take_drop_id)
      then show ?thesis by blast
    next
      case 2
      then obtain a b where "s = a @ t @ b" using Cons.IH by blast
      then have "c # s = (c # a) @ t @ b" by simp
      then show ?thesis by blast
    qed
  next
    assume "\<exists>a b. c # s = a @ t @ b"
    then obtain a b where ab: "c # s = a @ t @ b" by blast
    show "str_includes (c # s) t"
    proof (cases a)
      case Nil
      then have "take (length t) (c # s) = t" using ab by simp
      then show ?thesis by simp
    next
      case (Cons x a')
      then have "s = a' @ t @ b" using ab by simp
      then have "str_includes s t" using Cons.IH by blast
      then show ?thesis by simp
    qed
  qed
qed

lemma str_includes_trans:
  "str_includes s t \<Longrightarrow> str_includes t u \<Longrightarrow> str_includes s u"
proof -
  assume "str_includes s t" "str_includes t u"
  then obtain a b c d where "s = a @ t @ b" "t = c @ u @ d"
    unfolding str_includes_iff by blast
  then have "s = (a @ c) @ u @ (d @ b)" by simp
  then show ?thesis unfolding str_includes_iff by blast
qed

lemma json_in_media_types:
  "str_includes ''application/json'' ''json''" "str_includes ''text/json'' ''json''"
  by simp_all

lemma shouldCapture_iff:
  "(str_includes ct ''application/json'' \<or> str_includes ct ''text/json'' \<or> str_includes ct ''json'')
     = str_includes ct ''json''"
  using str_includes_trans [OF _ json_in_media_types(1)]
        str_includes_trans [OF _ json_in_media_types(2)] by blast

lemma size_check: "(real n / (1024 * 1024) > 25) = (n > 26214400)"
  by (simp add: field_simps)

text \<open>
  When a handler reaches the notification it has seen a response, a content type that
  passed its test, a decoded text within the limit that \<^verbatim>\<open>JSON.parse\<close> accepted, and it has
  appended exactly the record it reports. When it does not, the buffer is untouched.
\<close>

lemma http_capture_cases:
  assumes "notified (handleHttpRequest rt now s clientReq up) = Some (r, n)"
  shows "\<exists>proxyRes responseData.
           up = UpstreamResponse proxyRes
         \<and> (str_includes (header_or_empty (up_headers proxyRes) ''content-type'') ''application/json''
            \<or> str_includes (header_or_empty (up_headers proxyRes) ''content-type'') ''text/json'')
         \<and> length (accumulate rt (up_chunks proxyRes)) \<le> 26214400
         \<and> json_parse rt (accumulate rt (up_chunks proxyRes)) = Some responseData
         \<and> r = exchange_record rt now (creq_url clientReq) clientReq proxyRes responseData
         \<and> proxy (handleHttpRequest rt now s clientReq up) = fst (append_record s r)
         \<and> n = ordinal_of (fst (append_record s r))"
  using assms
  by (auto simp: handleHttpRequest_def Let_def size_check exchange_record_def
           split: upstream.splits option.splits if_splits)

lemma http_no_capture:
  "notified (handleHttpRequest rt now s clientReq up) = None \<Longrightarrow>
   proxy (handleHttpRequest rt now s clientReq up) = s"
  by (auto simp: handleHttpRequest_def Let_def split: upstream.splits option.splits if_splits)

lemma mitm_capture_cases:
  assumes "notified (handleHttpsMITM rt now s hostname clientReq up) = Some (r, n)"
  shows "\<exists>proxyRes decoded responseData.
           up = UpstreamResponse proxyRes
         \<and> str_includes (header_or_empty (up_headers proxyRes) ''content-type'') ''json''
         \<and> responseStream rt (map_of (up_headers proxyRes) ''content-encoding'')
              (concat (up_chunks proxyRes)) = Some decoded
         \<and> length (utf8 rt decoded) \<le> 26214400
         \<and> json_parse rt (utf8 rt decoded) = Some responseData
         \<and> r = exchange_record rt now (''https://'' @ hostname @ creq_url clientReq)
                 clientReq proxyRes responseData
         \<and> proxy (handleHttpsMITM rt now s hostname clientReq up) = fst (append_record s r)
         \<and> n = ordinal_of (fst (append_record s r))"
  using assms
  by (auto simp: handleHttpsMITM_def Let_def size_check exchange_record_def shouldCapture_iff
           split: upstream.splits option.splits if_splits)

lemma mitm_no_capture:
  "notified (handleHttpsMITM rt now s hostname clientReq up) = None \<Longrightarrow>
   proxy (handleHttpsMITM rt now s hostname clientReq up) = s"
  by (auto simp: handleHttpsMITM_def Let_def split: upstream.splits option.splits if_splits)

lemma capture_needs_json_within_cap:
  assumes "notified (handleHttpRequest rt now s clientReq up) = Some (r, n)
         \<or> notified (handleHttpsMITM rt now s hostname clientReq up) = Some (r, n)"
  shows "\<exists>proxyRes text.
           up = UpstreamResponse proxyRes
         \<and> str_includes (header_or_empty (up_headers proxyRes) ''content-type'') ''json''
         \<and> length text \<le> 25 * 1024 * 1024
         \<and> json_parse rt text = Some (res_body (response r))"
  using assms
proof
  assume "notified (handleHttpRequest rt now s clientReq up) = Some (r, n)"
  from http_capture_cases [OF this] show ?thesis
    using shouldCapture_iff by (fastforce simp: exchange_record_def)
next
  assume "notified (handleHttpsMITM rt now s hostname clientReq up) = Some (r, n)"
  from mitm_capture_cases [OF this] show ?thesis
    by (fastforce simp: exchange_record_def)
qed

lemma client_always_forwarded:
  "toClient (handleHttpRequest rt now s clientReq (UpstreamResponse proxyRes)) = forwarded proxyRes"
  "toClient (handleHttpsMITM rt now s hostname clientReq (UpstreamResponse proxyRes))
     = forwarded proxyRes"
  by (simp_all add: handleHttpRequest_def handleHttpsMITM_def Let_def split: option.splits)

text \<open>A response that does not end is forwarded as far as it came and captures nothing.\<close>

lemma unfinished_response_not_captured:
  "up = UpstreamAborted proxyRes msg \<or> up = UpstreamStalled proxyRes \<Longrightarrow>
   toClient (handleHttpRequest rt now s clientReq up) = forwarded proxyRes
   \<and> proxy (handleHttpRequest rt now s clientReq up) = s
   \<and> toClient (handleHttpsMITM rt now s hostname clientReq up) = forwarded proxyRes
   \<and> proxy (handleHttpsMITM rt now s hostname clientReq up) = s"
  by (auto simp: handleHttpRequest_def handleHttpsMITM_def Let_def)

lemma size_boundary_in_code_units:
  assumes "str_includes (header_or_empty (up_headers proxyRes) ''content-type'') ''application/json''"
      and "json_parse rt (accumulate rt (up_chunks proxyRes)) = Some v"
  shows "length (accumulate rt (up_chunks proxyRes)) = 25 * 1024 * 1024 \<Longrightarrow>
           notified (handleHttpRequest rt now s clientReq (UpstreamResponse proxyRes)) \<noteq> None"
    and "length (accumulate rt (up_chunks proxyRes)) = 25 * 1024 * 1024 + 1 \<Longrightarrow>
           notified (handleHttpRequest rt now s clientReq (UpstreamResponse proxyRes)) = None
           \<and> proxy (handleHttpRequest rt now s clientReq (UpstreamResponse proxyRes)) = s
           \<and> console (handleHttpRequest rt now s clientReq (UpstreamResponse proxyRes))
               = [ResponseTooLarge (26214401 / (1024 * 1024)) (creq_url clientReq)]"
  using assms by (simp_all add: handleHttpRequest_def Let_def size_check)

text \<open>The MITM handler concatenates the decoded stream before it decodes the text, so
  only the concatenation of the chunks matters to what it captures.\<close>

lemma mitm_chunking_irrelevant:
  assumes "up_statusCode p = up_statusCode q" and "up_headers p = up_headers q"
      and "concat (up_chunks p) = concat (up_chunks q)"
  shows "proxy (handleHttpsMITM rt now s hostname clientReq (UpstreamResponse p))
           = proxy (handleHttpsMITM rt now s hostname clientReq (UpstreamResponse q))
       \<and> notified (handleHttpsMITM rt now s hostname clientReq (UpstreamResponse p))
           = notified (handleHttpsMITM rt now s hostname clientReq (UpstreamResponse q))"
  using assms by (simp add: handleHttpsMITM_def Let_def split: option.splits)

text \<open>The plain HTTP handler never calls a decompressor.\<close>

lemma http_ignores_decompressors:
  "handleHttpRequest (rt\<lparr>gunzip := g, inflate := i, brotliDecompress := b\<rparr>) now s clientReq up
     = handleHttpRequest rt now s clientReq up"
  by (cases up)
     (simp_all add: handleHttpRequest_def Let_def accumulate_def requestData_def
        split: option.splits)

lemma http_needs_listed_type:
  "\<not> str_includes (header_or_empty (up_headers proxyRes) ''content-type'') ''application/json''
   \<Longrightarrow> \<not> str_includes (header_or_empty (up_headers proxyRes) ''content-type'') ''text/json''
   \<Longrightarrow> handleHttpRequest rt now s clientReq (UpstreamResponse proxyRes)
       = \<lparr>toClient = forwarded proxyRes, console = [], proxy = s, notified = None,
          uncaught = None\<rparr>"
  by (simp add: handleHttpRequest_def Let_def)

section \<open>The sample runtime at work\<close>

lemma sample_fields [simp]:
  "json_parse sample_runtime = json_parse_fragment"
  "json_stringify sample_runtime = stringify_fragment"
  "utf8 sample_runtime = utf8_decode"
  by (simp_all add: sample_runtime_def)

lemma decode_ok: "utf8_decode [0x22, 0x6F, 0x6B, 0x22] = [0x22, 0x6F, 0x6B, 0x22]"
  by simp

lemma parse_ok: "json_parse_fragment [0x22, 0x6F, 0x6B, 0x22] = Some (JString [0x6F, 0x6B])"
  by (simp add: json_parse_fragment_def plain_char_def)

lemma vendor_type_has_json: "str_includes ''application/vnd.api+json'' ''json''"
  by simp

lemma vendor_type_not_listed:
  "\<not> str_includes ''application/vnd.api+json'' ''application/json''"
  "\<not> str_includes ''application/vnd.api+json'' ''text/json''"
  by simp_all

lemma utf8_decode_ascii:
  "list_all (\<lambda>b. b < 0x80) as \<Longrightarrow> utf8_decode (as @ bs) = map ucast as @ utf8_decode bs"
  by (induction as) simp_all

lemma utf8_decode_e_acute: "utf8_decode (0xC3 # 0xA9 # bs) = 0xE9 # utf8_decode bs"
  by (simp add: continuation_def two_bytes_def)

lemma utf8_decode_e_acutes:
  "utf8_decode (concat (replicate n [0xC3, 0xA9]) @ bs) = replicate n 0xE9 @ utf8_decode bs"
  by (induction n) (simp_all add: utf8_decode_e_acute del: utf8_decode.simps)

lemma list_all_replicate: "list_all P (replicate n x) = (n = 0 \<or> P x)"
  by (induction n) auto

lemma quoted_parses:
  "list_all plain_char cs \<Longrightarrow> cs \<noteq> [] \<Longrightarrow>
   json_parse_fragment (0x22 # cs @ [0x22]) = Some (JString cs)"
  by (cases cs) (simp_all add: json_parse_fragment_def butlast_append)

lemma utf8_decode_letters: "utf8_decode (replicate n 0x61) = replicate n 0x61"
  using utf8_decode_ascii [of "replicate n 0x61" "[]"] by (simp add: list_all_replicate)

lemma concat_replicate_replicate: "concat (replicate n (replicate m x)) = replicate (n * m) x"
  by (induction n) (simp_all add: replicate_add)

text \<open>The plain HTTP handler decodes chunk by chunk; no chunk boundary of the sample
  falls inside a character.\<close>

lemma accumulate_25MB_plus_1:
  "accumulate sample_runtime (up_chunks big_response_25MB_plus_1)
     = 0x22 # (0xE9 # replicate 26214397 0x61) @ [0x22]"
proof -
  have first: "utf8_decode ([0x22, 0xC3, 0xA9] @ replicate 65533 0x61)
                 = 0x22 # 0xE9 # replicate 65533 0x61"
    using utf8_decode_e_acute [of "replicate 65533 0x61"]
          utf8_decode_ascii [of "[0x22]" "0xC3 # 0xA9 # replicate 65533 0x61"]
    by (simp add: utf8_decode_letters del: utf8_decode.simps)
  have "accumulate sample_runtime (up_chunks big_response_25MB_plus_1)
      = utf8_decode ([0x22, 0xC3, 0xA9] @ replicate 65533 0x61)
        @ concat (replicate 399 (utf8_decode (replicate 65536 0x61))) @ utf8_decode [0x22]"
    by (simp add: accumulate_def big_response_25MB_plus_1_def del: utf8_decode.simps)
  also have "\<dots> = (0x22 # 0xE9 # replicate 65533 0x61) @ replicate (399 * 65536) 0x61 @ [0x22]"
    by (simp only: first utf8_decode_letters concat_replicate_replicate) simp
  also have "\<dots> = 0x22 # (0xE9 # replicate (65533 + 399 * 65536) 0x61) @ [0x22]"
    by (simp only: replicate_add) simp
  finally show ?thesis by simp
qed

lemma parse_25MB:
  "json_parse_fragment (0x22 # (0xE9 # replicate 26214397 0x61) @ [0x22])
     = Some (JString (0xE9 # replicate 26214397 0x61))"
  by (rule quoted_parses) (simp_all add: list_all_replicate plain_char_def)

lemma length_concat_replicate: "length (concat (replicate n xs)) = n * length xs"
  by (induction n) simp_all

lemma decode_26MB:
  "utf8_decode (0x22 # concat (replicate 13631488 [0xC3, 0xA9]) @ [0x22])
     = 0x22 # replicate 13631488 0xE9 @ [0x22]"
proof -
  have "utf8_decode (concat (replicate 13631488 [0xC3, 0xA9]) @ [0x22])
          = replicate 13631488 0xE9 @ utf8_decode [0x22]"
    by (rule utf8_decode_e_acutes)
  then show ?thesis by simp
qed

lemma parse_13MB:
  "json_parse_fragment (0x22 # replicate 13631488 0xE9 @ [0x22])
     = Some (JString (replicate 13631488 0xE9))"
  by (rule quoted_parses) (simp_all add: list_all_replicate plain_char_def)

lemma http_sample_capture:
  "notified (handleHttpRequest sample_runtime sample_now (new_ProxyServer 8888 False) req
      (UpstreamResponse json_response))
   = Some (exchange_record sample_runtime sample_now (creq_url req) req json_response
             (JString [0x6F, 0x6B]), 1)"
proof -
  have ct: "header_or_empty (up_headers json_response) ''content-type'' = ''application/json''"
    by (simp add: header_or_empty_def json_response_def)
  have body: "accumulate sample_runtime (up_chunks json_response) = [0x22, 0x6F, 0x6B, 0x22]"
    by (simp add: accumulate_def json_response_def)
  show ?thesis
    unfolding handleHttpRequest_def Let_def upstream.case ct body
    by (simp add: parse_ok size_check append_record_def new_ProxyServer_def ordinal_of_def
          exchange_record_def)
qed

section \<open>Size limit and content type\<close>

text \<open>
  C1. The limit is applied to the length of the decoded text, which counts UTF-16 code
  units, so a body of more than 25 MB passes when it holds enough multi-byte characters.
  Here the MITM handler receives a JSON string literal of 26 MB and two bytes whose text
  has 13631490 code units; the handler appends a record for it.
\<close>

theorem body_of_26MB_is_captured:
  "length (concat (up_chunks big_response_26MB)) = 26 * 1024 * 1024 + 2
   \<and> map (res_body \<circ> response) (capturedResponses (proxy (handleHttpsMITM sample_runtime
        sample_now (new_ProxyServer 8888 False) ''upstream.test'' get_request
        (UpstreamResponse big_response_26MB))))
     = [JString (replicate 13631488 0xE9)]"
proof -
  have "length (concat (up_chunks big_response_26MB)) = 26 * 1024 * 1024 + 2"
    by (simp add: big_response_26MB_def length_concat_replicate)
  moreover have ct: "header_or_empty (up_headers big_response_26MB) ''content-type''
      = ''application/json''"
    by (simp add: header_or_empty_def big_response_26MB_def)
  have enc: "map_of (up_headers big_response_26MB) ''content-encoding'' = None"
    by (simp add: big_response_26MB_def)
  have raw: "concat (up_chunks big_response_26MB)
      = 0x22 # concat (replicate 13631488 [0xC3, 0xA9]) @ [0x22]"
    by (simp add: big_response_26MB_def)
  have "map (res_body \<circ> response) (capturedResponses (proxy (handleHttpsMITM sample_runtime
        sample_now (new_ProxyServer 8888 False) ''upstream.test'' get_request
        (UpstreamResponse big_response_26MB))))
     = [JString (replicate 13631488 0xE9)]"
    unfolding handleHttpsMITM_def Let_def upstream.case ct enc raw responseStream_def
    by (simp add: decode_26MB parse_13MB size_check append_record_def new_ProxyServer_def
          del: utf8_decode.simps)
  ultimately show ?thesis by simp
qed

text \<open>
  C3. The plain HTTP handler tests the content type for \<^verbatim>\<open>application/json\<close> and
  \<^verbatim>\<open>text/json\<close> only and never decodes the body. A response of type
  \<^verbatim>\<open>application/vnd.api+json\<close>, which contains \<^verbatim>\<open>json\<close>, is not captured by it, while the
  MITM handler captures the same response.
\<close>

theorem plain_http_skips_vendor_json:
  "str_includes (header_or_empty (up_headers vendor_json_response) ''content-type'') ''json''
   \<and> notified (handleHttpRequest sample_runtime sample_now (new_ProxyServer 8888 False) get_request
        (UpstreamResponse vendor_json_response)) = None
   \<and> capturedResponses (proxy (handleHttpRequest sample_runtime sample_now
        (new_ProxyServer 8888 False) get_request (UpstreamResponse vendor_json_response))) = []
   \<and> map (res_body \<circ> response) (capturedResponses (proxy (handleHttpsMITM sample_runtime sample_now
        (new_ProxyServer 8888 False) ''upstream.test'' get_request
        (UpstreamResponse vendor_json_response)))) = [JString [0x6F, 0x6B]]"
proof -
  have ct: "header_or_empty (up_headers vendor_json_response) ''content-type''
              = ''application/vnd.api+json''"
    by (simp add: header_or_empty_def vendor_json_response_def)
  have http: "handleHttpRequest sample_runtime sample_now (new_ProxyServer 8888 False) get_request
        (UpstreamResponse vendor_json_response)
      = \<lparr>toClient = forwarded vendor_json_response, console = [],
         proxy = new_ProxyServer 8888 False, notified = None, uncaught = None\<rparr>"
    by (rule http_needs_listed_type) (simp_all only: ct vendor_type_not_listed not_False_eq_True)
  have enc: "map_of (up_headers vendor_json_response) ''content-encoding'' = None"
    by (simp add: vendor_json_response_def)
  have raw: "concat (up_chunks vendor_json_response) = [0x22, 0x6F, 0x6B, 0x22]"
    by (simp add: vendor_json_response_def)
  have mitm: "map (res_body \<circ> response) (capturedResponses (proxy (handleHttpsMITM sample_runtime
        sample_now (new_ProxyServer 8888 False) ''upstream.test'' get_request
        (UpstreamResponse vendor_json_response)))) = [JString [0x6F, 0x6B]]"
    unfolding handleHttpsMITM_def Let_def upstream.case ct enc raw responseStream_def
    by (simp add: decode_ok parse_ok size_check append_record_def
          new_ProxyServer_def del: utf8_decode.simps)
  show ?thesis
    using ct http mitm vendor_type_has_json by (simp add: new_ProxyServer_def)
qed

text \<open>
  C4. A JSON body of 25 MB and one byte that holds one two-byte character decodes to
  exactly \<open>25 * 1024 * 1024\<close> code units; the plain HTTP handler does not find it too
  large and captures it. (For a text of that many code units and one more, see
  \<open>size_boundary_in_code_units\<close>.)
\<close>

theorem body_of_25MB_plus_one_byte_is_captured:
  "length (concat (up_chunks big_response_25MB_plus_1)) = 25 * 1024 * 1024 + 1
   \<and> map (res_body \<circ> response) (capturedResponses (proxy (handleHttpRequest sample_runtime
        sample_now (new_ProxyServer 8888 False) get_request
        (UpstreamResponse big_response_25MB_plus_1))))
     = [JString (0xE9 # replicate 26214397 0x61)]"
proof -
  have "length (concat (up_chunks big_response_25MB_plus_1)) = 25 * 1024 * 1024 + 1"
    by (simp add: big_response_25MB_plus_1_def concat_replicate_replicate)
  moreover have body: "accumulate sample_runtime (up_chunks big_response_25MB_plus_1)
      = 0x22 # (0xE9 # replicate 26214397 0x61) @ [0x22]"
    by (rule accumulate_25MB_plus_1)
  have ct: "header_or_empty (up_headers big_response_25MB_plus_1) ''content-type'' = ''application/json''"
    by (simp add: header_or_empty_def big_response_25MB_plus_1_def)
  have parse: "json_parse sample_runtime (0x22 # (0xE9 # replicate 26214397 0x61) @ [0x22])
      = Some (JString (0xE9 # replicate 26214397 0x61))"
    using parse_25MB by (simp add: sample_runtime_def)
  have "map (res_body \<circ> response) (capturedResponses (proxy (handleHttpRequest sample_runtime
        sample_now (new_ProxyServer 8888 False) get_request
        (UpstreamResponse big_response_25MB_plus_1))))
     = [JString (0xE9 # replicate 26214397 0x61)]"
    unfolding handleHttpRequest_def Let_def upstream.case body ct size_check parse
    by (simp add: append_record_def new_ProxyServer_def)
  ultimately show ?thesis by simp
qed

section \<open>Upstream failure\<close>

text \<open>When the upstream request fails before any response arrives, the client is answered
  with status 502, the header \<^verbatim>\<open>Content-Type: text/plain\<close> and the body \<^verbatim>\<open>Bad Gateway\<close>, and
  the proxy object is the one the handler started with.\<close>

lemma error_before_response_gives_502:
  "cres_status (toClient (handleHttpRequest rt now s clientReq (UpstreamError msg))) = 502
   \<and> cres_headers (toClient (handleHttpRequest rt now s clientReq (UpstreamError msg)))
       = [(''Content-Type'', ''text/plain'')]
   \<and> cres_body (toClient (handleHttpRequest rt now s clientReq (UpstreamError msg)))
       = EndText ''Bad Gateway''
   \<and> proxy (handleHttpRequest rt now s clientReq (UpstreamError msg)) = s
   \<and> notified (handleHttpRequest rt now s clientReq (UpstreamError msg)) = None"
  by (simp add: handleHttpRequest_def Let_def bad_gateway_def)

text \<open>The 502 reaches the client in that course of events only: once the response callback
  has run, the client has the upstream status and whatever was piped.\<close>

lemma bad_gateway_only_before_response:
  "toClient (handleHttpRequest rt now s clientReq up) = bad_gateway
     \<longleftrightarrow> (\<exists>msg. up = UpstreamError msg)"
  by (cases up)
     (simp_all add: handleHttpRequest_def Let_def bad_gateway_def forwarded_def
        split: option.splits)

text \<open>
  C6. The claim covers a read that fails; the error listener then runs after the response
  callback. Here the head of a 200 response and two bytes of its body have been forwarded
  when the read fails: the client has status 200 and those bytes, not a 502, and the
  \<^verbatim>\<open>writeHead(502)\<close> of the error listener throws.
\<close>

theorem read_failure_after_head_gives_no_502:
  "cres_status (toClient (handleHttpRequest sample_runtime sample_now (new_ProxyServer 8888 False)
      get_request (UpstreamAborted partial_response ''read ECONNRESET''))) = 200
   \<and> cres_body (toClient (handleHttpRequest sample_runtime sample_now (new_ProxyServer 8888 False)
      get_request (UpstreamAborted partial_response ''read ECONNRESET''))) = Piped [[0x22, 0x6F]]
   \<and> uncaught (handleHttpRequest sample_runtime sample_now (new_ProxyServer 8888 False)
      get_request (UpstreamAborted partial_response ''read ECONNRESET''))
       = Some ERR_HTTP_HEADERS_SENT"
  by (simp add: handleHttpRequest_def Let_def forwarded_def partial_response_def)

section \<open>The request body of a record\<close>

text \<open>
  For a record captured by either handler the request body is determined by the text the
  handler accumulated, each chunk decoded on its own: the parsed value if that text is
  not empty and \<^verbatim>\<open>JSON.parse\<close> accepts it, the text as a string if it is not empty and
  rejected, \<^verbatim>\<open>null\<close> if it is empty.
\<close>

lemma request_body_from_accumulated_text:
  assumes "notified (handleHttpRequest rt now s clientReq up) = Some (r, n)
         \<or> notified (handleHttpsMITM rt now s hostname clientReq up) = Some (r, n)"
  shows "(\<forall>v. accumulate rt (creq_chunks clientReq) \<noteq> []
               \<and> json_parse rt (accumulate rt (creq_chunks clientReq)) = Some v
             \<longrightarrow> req_body (request r) = v)
       \<and> (accumulate rt (creq_chunks clientReq) \<noteq> []
               \<and> json_parse rt (accumulate rt (creq_chunks clientReq)) = None
             \<longrightarrow> req_body (request r) = JString (accumulate rt (creq_chunks clientReq)))
       \<and> (accumulate rt (creq_chunks clientReq) = [] \<longrightarrow> req_body (request r) = JNull)"
proof -
  have "req_body (request r) = requestData rt (accumulate rt (creq_chunks clientReq))"
    using assms
  proof
    assume "notified (handleHttpRequest rt now s clientReq up) = Some (r, n)"
    from http_capture_cases [OF this] show ?thesis
      by (auto simp: exchange_record_def)
  next
    assume "notified (handleHttpsMITM rt now s hostname clientReq up) = Some (r, n)"
    from mitm_capture_cases [OF this] show ?thesis
      by (auto simp: exchange_record_def)
  qed
  then show ?thesis by (simp add: requestData_def)
qed

lemma request_body_samples:
  "req_body (request (exchange_record sample_runtime sample_now (creq_url post_json_request)
      post_json_request json_response (JString [0x6F, 0x6B]))) = JBool True
   \<and> req_body (request (exchange_record sample_runtime sample_now (creq_url post_text_request)
      post_text_request json_response (JString [0x6F, 0x6B]))) = JString [0x68, 0x69]
   \<and> req_body (request (exchange_record sample_runtime sample_now (creq_url get_request)
      get_request json_response (JString [0x6F, 0x6B]))) = JNull"
proof -
  have a: "accumulate sample_runtime (creq_chunks post_json_request) = [0x74, 0x72, 0x75, 0x65]"
    by (simp add: accumulate_def post_json_request_def)
  have b: "accumulate sample_runtime (creq_chunks post_text_request) = [0x68, 0x69]"
    by (simp add: accumulate_def post_text_request_def)
  have c: "accumulate sample_runtime (creq_chunks get_request) = []"
    by (simp add: accumulate_def get_request_def)
  have pa: "json_parse_fragment [0x74, 0x72, 0x75, 0x65] = Some (JBool True)"
    by (simp add: json_parse_fragment_def)
  have pb: "json_parse_fragment [0x68, 0x69] = None"
    by (simp add: json_parse_fragment_def)
  show ?thesis
    using request_body_from_accumulated_text
            [OF disjI1 [OF http_sample_capture [of post_json_request]]]
          request_body_from_accumulated_text
            [OF disjI1 [OF http_sample_capture [of post_text_request]]]
          request_body_from_accumulated_text
            [OF disjI1 [OF http_sample_capture [of get_request]]]
    by (simp add: a b c pa pb)
qed

text \<open>
  C7. The accumulated text is not the original body when a chunk boundary falls inside a
  character. The request body \<^verbatim>\<open>22 C3 A9 22\<close> is valid JSON, the string of one \<^verbatim>\<open>U+00E9\<close>;
  sent as the chunks \<^verbatim>\<open>22 C3\<close> and \<^verbatim>\<open>A9 22\<close> it is recorded as the string of two
  \<^verbatim>\<open>U+FFFD\<close>.
\<close>

theorem split_character_in_request_body:
  "json_parse sample_runtime (utf8 sample_runtime (concat (creq_chunks split_post_request)))
     = Some (JString [0xE9])
   \<and> map (req_body \<circ> request) (capturedResponses (proxy (handleHttpRequest sample_runtime
        sample_now (new_ProxyServer 8888 False) split_post_request
        (UpstreamResponse json_response))))
     = [JString [0xFFFD, 0xFFFD]]"
proof -
  have whole: "utf8_decode (concat (creq_chunks split_post_request)) = [0x22, 0xE9, 0x22]"
    by (simp add: split_post_request_def continuation_def two_bytes_def)
  have original: "json_parse_fragment [0x22, 0xE9, 0x22] = Some (JString [0xE9])"
    by (simp add: json_parse_fragment_def plain_char_def)
  have pieces: "accumulate sample_runtime (creq_chunks split_post_request)
      = [0x22, 0xFFFD, 0xFFFD, 0x22]"
    by (simp add: accumulate_def split_post_request_def continuation_def)
  have recorded: "json_parse_fragment [0x22, 0xFFFD, 0xFFFD, 0x22]
      = Some (JString [0xFFFD, 0xFFFD])"
    by (simp add: json_parse_fragment_def plain_char_def)
  from http_capture_cases [OF http_sample_capture [of split_post_request]]
  have "proxy (handleHttpRequest sample_runtime sample_now (new_ProxyServer 8888 False)
          split_post_request (UpstreamResponse json_response))
      = fst (append_record (new_ProxyServer 8888 False)
          (exchange_record sample_runtime sample_now (creq_url split_post_request)
             split_post_request json_response (JString [0x6F, 0x6B])))"
    by blast
  then have "map (req_body \<circ> request) (capturedResponses (proxy (handleHttpRequest
        sample_runtime sample_now (new_ProxyServer 8888 False) split_post_request
        (UpstreamResponse json_response))))
     = [JString [0xFFFD, 0xFFFD]]"
    by (simp add: append_record_def new_ProxyServer_def exchange_record_def requestData_def
          pieces recorded)
  then show ?thesis using whole original by simp
qed

section \<open>Leaf certificates\<close>

lemma generate_cached:
  "cache m h = Some l \<Longrightarrow> generateCertForHost m h fx = Inr (l, m)"
  by (simp add: generateCertForHost_def)

lemma generate_result_cached:
  "generateCertForHost m h fx = Inr (l, m') \<Longrightarrow> cache m' h = Some l"
  by (auto simp: generateCertForHost_def Let_def split: option.splits)

lemma generate_keeps_entries:
  "generateCertForHost m h' fx = Inr (l', m') \<Longrightarrow> cache m h = Some l \<Longrightarrow> cache m' h = Some l"
  by (auto simp: generateCertForHost_def Let_def split: option.splits)

lemma mint_run_keeps_entries:
  "cache m h = Some l \<Longrightarrow> cache (mint_run m calls) h = Some l"
proof (induction calls arbitrary: m)
  case Nil
  then show ?case by simp
next
  case (Cons call calls)
  obtain h' fx where call: "call = (h', fx)" by (cases call)
  show ?case
  proof (cases "generateCertForHost m h' fx")
    case (Inl e)
    then show ?thesis using Cons call by simp
  next
    case (Inr res)
    obtain l' m' where res: "res = (l', m')" by (cases res)
    have "cache m' h = Some l"
      using generate_keeps_entries Inr res Cons.prems by blast
    then show ?thesis using Cons.IH Inr res call by simp
  qed
qed

text \<open>What a call returns for a host name that is not cached, with a loaded CA. The
  validity is the first clock reading and the second one with its year set to the year of
  the first plus one, both as the PEM text keeps them.\<close>

lemma fresh_leaf_fields:
  assumes "cache m hostname = None" "caCert m = Some ca" "caKey m = Some signer"
  shows "\<exists>l cert. generateCertForHost m hostname fx
             = Inr (l, m\<lparr>cache := (cache m)(hostname \<mapsto> l)\<rparr>)
        \<and> leaf_key l = PrivateKeyPem (privateKey (generatedKeys fx))
        \<and> leaf_cert l = CertificatePem cert
        \<and> cert_publicKey cert = publicKey (generatedKeys fx)
        \<and> serialNumber cert = even_digits (dateNowText fx)
        \<and> subject cert = [Name ''commonName'' hostname]
        \<and> issuer cert = subject ca
        \<and> extensions cert =
            [BasicConstraints False,
             KeyUsage False True False True True,
             ExtKeyUsage True True False False False,
             SubjectAltName [(2, hostname)]]
        \<and> signedBy cert = Sha256Signature signer
        \<and> notBefore cert = whole_seconds (firstDate fx)
        \<and> notAfter cert = whole_seconds (setFullYear (localZone fx) (secondDate fx)
                                 (getFullYear (firstDate fx) + 1))"
  using assms
  by (simp add: generateCertForHost_def Let_def certificateToPem_def privateKeyToPem_def)

lemma generate_dns_names:
  assumes "cache_minted m" and "generateCertForHost m h fx = Inr (l, m')"
  shows "leaf_dns_names l = [h] \<and> cache_minted m'"
proof (cases "cache m h")
  case (Some cached)
  then have "l = cached" "m' = m"
    using assms(2) by (simp_all add: generateCertForHost_def)
  then show ?thesis using assms(1) Some by (simp add: cache_minted_def)
next
  case None
  then obtain ca signer where loaded: "caCert m = Some ca" "caKey m = Some signer"
    using assms(2) by (auto simp: generateCertForHost_def split: option.splits)
  from fresh_leaf_fields [OF None loaded, of fx] assms(2)
  have l: "leaf_dns_names l = [h]" and m': "m' = m\<lparr>cache := (cache m)(h \<mapsto> l)\<rparr>"
    by (auto simp: leaf_dns_names_def)
  have "cache_minted m'"
    unfolding cache_minted_def
  proof (intro allI impI)
    fix h' l'
    assume "cache m' h' = Some l'"
    then show "leaf_dns_names l' = [h']"
      using m' l assms(1) by (cases "h' = h") (auto simp: cache_minted_def)
  qed
  with l show ?thesis by simp
qed

lemma sample_manager_fields:
  "cache sample_manager h = None" "caKey sample_manager = Some 11"
  "map_option subject (caCert sample_manager) = Some ca_attrs"
  by (simp_all add: sample_manager_def generateCA_def new_CertificateManager_def)

text \<open>
  C8. The validity is taken from two clock readings: \<^verbatim>\<open>notAfter\<close> is the second reading
  with its year set to the year of the first plus one. With the first reading in the last
  millisecond of 2026 and the second in the first of 2027, the certificate returned is
  valid from 31 December 2026, 23:59:59, to 1 January 2027, 00:00:00: one second, not one
  year.
\<close>

theorem validity_across_new_year:
  "map_option notBefore (minted_cert sample_manager ''upstream.test'' year_end_effects)
     = Some \<lparr>year = 2026, month = 11, day = 31, millisOfDay = 86399000\<rparr>
   \<and> map_option notAfter (minted_cert sample_manager ''upstream.test'' year_end_effects)
     = Some \<lparr>year = 2027, month = 0, day = 1, millisOfDay = 0\<rparr>"
  by (simp add: minted_cert_def generateCertForHost_def sample_manager_def generateCA_def
        new_CertificateManager_def year_end_effects_def Let_def certificateToPem_def
        privateKeyToPem_def whole_seconds_def setFullYear_def getFullYear_def)

text \<open>
  C9. Starting from a manager whose cached leaves were minted for their host names (the
  constructor's empty cache is one): once a call for \<open>h\<close> has returned a leaf, a later call
  for \<open>h\<close>, after any other calls, returns the same key and certificate and leaves the
  manager as it is, so both carry the same public key; and the leaves returned for two
  different host names have different DNS alternative names, each its own host name.
\<close>

theorem leaf_for_repeats_and_names_differ:
  assumes "cache_minted m"
  shows "(generateCertForHost m h fx1 = Inr (l1, m1) \<longrightarrow>
            generateCertForHost (mint_run m1 calls) h fx2 = Inr (l1, mint_run m1 calls)
            \<and> map_option leaf_public_key (minted_leaf (mint_run m1 calls) h fx2)
                = Some (leaf_public_key l1))
       \<and> (h1 \<noteq> h2 \<and> generateCertForHost m h1 fx1 = Inr (k1, n1)
             \<and> generateCertForHost n1 h2 fx2 = Inr (k2, n2) \<longrightarrow>
            leaf_dns_names k1 = [h1] \<and> leaf_dns_names k2 = [h2]
            \<and> leaf_dns_names k1 \<noteq> leaf_dns_names k2)"
proof (intro conjI impI)
  assume "generateCertForHost m h fx1 = Inr (l1, m1)"
  then have "cache m1 h = Some l1" by (rule generate_result_cached)
  then have "cache (mint_run m1 calls) h = Some l1" by (rule mint_run_keeps_entries)
  then show again: "generateCertForHost (mint_run m1 calls) h fx2 = Inr (l1, mint_run m1 calls)"
    by (rule generate_cached)
  then show "map_option leaf_public_key (minted_leaf (mint_run m1 calls) h fx2)
                = Some (leaf_public_key l1)"
    by (simp add: minted_leaf_def)
next
  assume a: "h1 \<noteq> h2 \<and> generateCertForHost m h1 fx1 = Inr (k1, n1)
             \<and> generateCertForHost n1 h2 fx2 = Inr (k2, n2)"
  then have 1: "leaf_dns_names k1 = [h1] \<and> cache_minted n1"
    using assms generate_dns_names by blast
  then have 2: "leaf_dns_names k2 = [h2]"
    using a generate_dns_names by blast
  show "leaf_dns_names k1 = [h1]" using 1 by simp
  show "leaf_dns_names k2 = [h2]" using 2 by simp
  show "leaf_dns_names k1 \<noteq> leaf_dns_names k2" using 1 2 a by simp
qed

lemma cache_minted_sample: "cache_minted sample_manager"
  by (simp add: cache_minted_def sample_manager_fields)

theorem leaf_for_repeats_and_names_differ_witness:
  "minted_leaf (mint_run sample_manager
        [(''upstream.test'', same_instant_effects), (''api.test'', year_end_effects)])
      ''upstream.test'' year_end_effects
     = minted_leaf sample_manager ''upstream.test'' same_instant_effects
   \<and> map_option leaf_dns_names (minted_leaf sample_manager ''upstream.test'' same_instant_effects)
     = Some [''upstream.test'']
   \<and> map_option leaf_dns_names
       (minted_leaf (mint_run sample_manager [(''upstream.test'', same_instant_effects)])
          ''api.test'' year_end_effects)
     = Some [''api.test'']"
proof -
  obtain ca where ca: "caCert sample_manager = Some ca"
    by (simp add: sample_manager_def generateCA_def new_CertificateManager_def)
  obtain l1 m1 where g1:
    "generateCertForHost sample_manager ''upstream.test'' same_instant_effects = Inr (l1, m1)"
    and m1: "m1 = sample_manager\<lparr>cache := (cache sample_manager)(''upstream.test'' \<mapsto> l1)\<rparr>"
    using fresh_leaf_fields [OF sample_manager_fields(1) ca sample_manager_fields(2)] by blast
  have "cache m1 ''api.test'' = None" "caCert m1 = Some ca" "caKey m1 = Some 11"
    using m1 ca sample_manager_fields by simp_all
  from fresh_leaf_fields [OF this]
  obtain l2 m2 where g2: "generateCertForHost m1 ''api.test'' year_end_effects = Inr (l2, m2)"
    by blast
  have run1: "mint_run sample_manager [(''upstream.test'', same_instant_effects)] = m1"
    using g1 by simp
  have run2: "mint_run sample_manager
        [(''upstream.test'', same_instant_effects), (''api.test'', year_end_effects)] = m2"
    using g1 g2 by simp
  have "mint_run m1 [(''api.test'', year_end_effects)] = m2"
    using g2 by simp
  with leaf_for_repeats_and_names_differ [OF cache_minted_sample,
      of "''upstream.test''" same_instant_effects l1 m1 "[(''api.test'', year_end_effects)]"
         year_end_effects "''upstream.test''" "''api.test''" l1 m1 l2 m2]
  have "generateCertForHost m2 ''upstream.test'' year_end_effects = Inr (l1, m2)"
    and "leaf_dns_names l1 = [''upstream.test'']" and "leaf_dns_names l2 = [''api.test'']"
    using g1 g2 by simp_all
  then show ?thesis
    using g1 g2 by (simp add: minted_leaf_def run1 run2)
qed

section \<open>Reading the buffer\<close>

text \<open>
  C10. \<^verbatim>\<open>getResponse\<close> and both \<^verbatim>\<open>listResponses\<close> return the proxy object they were given,
  for every buffer and every integer index, and \<^verbatim>\<open>getResponse\<close> answers \<^verbatim>\<open>null\<close> for an
  index below 1 or above the length.
\<close>

theorem reads_leave_buffer_unchanged:
  "snd (getResponse s index) = s
   \<and> snd (listResponses s) = s
   \<and> snd (listResponses_interactive rt s) = s
   \<and> (index < 1 \<or> index > int (length (capturedResponses s)) \<longrightarrow> getResponse s index = (None, s))"
  by (simp add: getResponse_def listResponses_def listResponses_interactive_def)

theorem reads_leave_buffer_unchanged_witness:
  "snd (getResponse full_proxy 100) = full_proxy
   \<and> snd (listResponses full_proxy) = full_proxy
   \<and> snd (listResponses_interactive sample_runtime full_proxy) = full_proxy
   \<and> getResponse full_proxy 0 = (None, full_proxy)
   \<and> getResponse full_proxy 101 = (None, full_proxy)"
  using reads_leave_buffer_unchanged [of full_proxy 100 sample_runtime]
        reads_leave_buffer_unchanged [of full_proxy 0 sample_runtime]
        reads_leave_buffer_unchanged [of full_proxy 101 sample_runtime]
  by (simp add: full_proxy_def)

end
